theory Spec2Isabelle
  imports Complex_Main
begin

section \<open>PhishGuard: the scan pipeline of api/genai\_app.py\<close>

subsection \<open>Feature extraction\<close>

text \<open>
  \<^verbatim>\<open>tldextract.extract(url)\<close> is a library call. Only two attributes of its result are
  read by the program, \<^verbatim>\<open>ext.fqdn\<close> and \<^verbatim>\<open>ext.suffix\<close>; the call is a parameter
  \<open>extract\<close> of the model and its result is the record below. Strings are lists of
  8-bit characters: the URLs and texts of the model are ASCII.
\<close>

record extract_result =
  fqdn :: string
  suffix :: string

text \<open>The dict returned by \<^verbatim>\<open>get_url_features\<close>, one field per key.\<close>

record url_features =
  host :: string
  url_length :: int
  num_dots :: int
  num_hyphens :: int
  has_https :: bool
  looks_like_ip :: bool
  suspicious_tld :: bool

definition SUSPICIOUS_TLDS :: "string set" where
  "SUSPICIOUS_TLDS = {''xyz'', ''zip'', ''click'', ''top'', ''tk'', ''ml'', ''ga'', ''cf''}"

text \<open>\<^verbatim>\<open>s.split(sep)\<close> for a one-character separator: the maximal runs between separators.\<close>

fun split_on :: "char \<Rightarrow> string \<Rightarrow> string list" where
  "split_on sep [] = [[]]"
| "split_on sep (c # cs) =
     (if c = sep then [] # split_on sep cs
      else (case split_on sep cs of g # gs \<Rightarrow> (c # g) # gs | [] \<Rightarrow> [[c]]))"

definition is_digit :: "char \<Rightarrow> bool" where
  "is_digit c = (c \<in> set ''0123456789'')"

text \<open>
  \<^verbatim>\<open>re.fullmatch(r"\d{1,3}(\.\d{1,3}){3}", host)\<close>: the whole host is four groups of one to
  three digits separated by single dots. A digit group cannot contain a dot, so the match
  exists exactly when splitting at the dots gives four such groups. Digits are the ASCII
  digits.
\<close>

definition is_ip :: "string \<Rightarrow> bool" where
  "is_ip h =
     (let groups = split_on (CHR ''.'') h
      in length groups = 4 \<and>
         list_all (\<lambda>g. 1 \<le> length g \<and> length g \<le> 3 \<and> list_all is_digit g) groups)"

text \<open>\<^verbatim>\<open>s.count(c)\<close> for a one-character argument.\<close>

definition count_char :: "string \<Rightarrow> char \<Rightarrow> int" where
  "count_char s c = int (length (filter (\<lambda>d. d = c) s))"

text \<open>\<^verbatim>\<open>s.startswith(p)\<close>.\<close>

definition startswith :: "string \<Rightarrow> string \<Rightarrow> bool" where
  "startswith s p = (take (length p) s = p)"

definition get_url_features :: "(string \<Rightarrow> extract_result) \<Rightarrow> string \<Rightarrow> url_features" where
  "get_url_features extract url =
     (let ext = extract url;
          h = fqdn ext
      in \<lparr> host = h,
           url_length = int (length url),
           num_dots = count_char h (CHR ''.''),
           num_hyphens = count_char h (CHR ''-''),
           has_https = startswith url ''https'',
           looks_like_ip = is_ip h,
           suspicious_tld = (suffix ext \<in> SUSPICIOUS_TLDS) \<rparr>)"

text \<open>
  What the extraction library answers for a host with no public suffix (\<^verbatim>\<open>localhost\<close>, an
  IP literal): an empty suffix, and therefore an empty \<^verbatim>\<open>fqdn\<close>.
\<close>

definition extract_no_suffix :: "string \<Rightarrow> extract_result" where
  "extract_no_suffix url = \<lparr> fqdn = [], suffix = [] \<rparr>"

subsection \<open>Heuristic scorer\<close>

text \<open>
  \<^verbatim>\<open>ml_score_calc\<close> runs five \<^verbatim>\<open>if\<close> statements in sequence over the pair
  \<open>(score, reasons)\<close>; each step below is one of them.
\<close>

definition rule_step :: "bool \<Rightarrow> int \<Rightarrow> string \<Rightarrow> int \<times> string list \<Rightarrow> int \<times> string list" where
  "rule_step cond delta reason st =
     (if cond then (fst st + delta, snd st @ [reason]) else st)"

definition ml_score_calc :: "url_features \<Rightarrow> int \<times> string list" where
  "ml_score_calc features =
     (let st = (0, []);
          st = rule_step (looks_like_ip features) 20 ''IP address used instead of domain'' st;
          st = rule_step (suspicious_tld features) 15 ''Suspicious TLD detected'' st;
          st = rule_step (url_length features > 70) 10 ''Unusually long URL'' st;
          st = rule_step (num_hyphens features \<ge> 3) 10 ''Too many hyphens in domain'' st;
          st = rule_step (\<not> has_https features) 10 ''HTTPS not used'' st
      in (min (fst st) 100, snd st))"

subsection \<open>Python floats\<close>

text \<open>
  A Python float is an IEEE binary64 value. The model carries a finite float as the rational
  it denotes and writes the rounding of every operation out: \<open>fl\<close> rounds a rational to
  the nearest binary64 value (53 significant bits, ties to even, the spacing never below
  \<open>2 ^ -1074\<close>). NaN and the infinities are not represented, and neither is the sign of
  zero: the model covers the finite floats, of magnitude below \<open>2 ^ 1024\<close>.
\<close>

type_synonym pyfloat = rat

fun ilog2 :: "nat \<Rightarrow> nat" where
  "ilog2 n = (if n < 2 then 0 else Suc (ilog2 (n div 2)))"

declare ilog2.simps [simp del]

definition pow2 :: "int \<Rightarrow> rat" where
  "pow2 e = (if e \<ge> 0 then 2 ^ nat e else 1 / 2 ^ nat (- e))"

text \<open>The binary exponent of a positive rational: \<open>pow2 e \<le> x < pow2 (e + 1)\<close>.\<close>

definition exponent :: "rat \<Rightarrow> int" where
  "exponent x =
     (if x \<ge> 1 then int (ilog2 (nat \<lfloor>x\<rfloor>))
      else - int (ilog2 (nat (\<lceil>1 / x\<rceil> - 1))) - 1)"

definition round_half_even :: "rat \<Rightarrow> int" where
  "round_half_even x =
     (let f = \<lfloor>x\<rfloor>; d = x - of_int f
      in if d < 1 / 2 then f else if d > 1 / 2 then f + 1 else if even f then f else f + 1)"

definition fl :: "rat \<Rightarrow> pyfloat" where
  "fl x =
     (if x = 0 then 0
      else (let u = pow2 (max (exponent \<bar>x\<bar> - 52) (- 1074))
            in of_int (round_half_even (x / u)) * u))"

text \<open>\<^verbatim>\<open>a * b\<close> and \<^verbatim>\<open>a + b\<close> on floats: the exact result, rounded once.\<close>

definition fmul :: "pyfloat \<Rightarrow> pyfloat \<Rightarrow> pyfloat" where
  "fmul a b = fl (a * b)"

definition fadd :: "pyfloat \<Rightarrow> pyfloat \<Rightarrow> pyfloat" where
  "fadd a b = fl (a + b)"

text \<open>
  \<^verbatim>\<open>round(x, 2)\<close> on a float: the exact value of \<open>x\<close> is rounded to two decimals, ties to
  even, and the decimal result is converted back to the nearest float.
\<close>

definition round2 :: "pyfloat \<Rightarrow> pyfloat" where
  "round2 x = fl (of_int (round_half_even (x * 100)) / 100)"

subsection \<open>JSON values and Python exceptions\<close>

text \<open>
  The values \<^verbatim>\<open>json.loads\<close> builds. \<open>JObj\<close> lists a dict's items, one per key; \<open>JFloat\<close>
  carries a finite float.
\<close>

datatype json =
    JNull
  | JBool bool
  | JInt int
  | JFloat pyfloat
  | JStr string
  | JArr "json list"
  | JObj "(string \<times> json) list"

datatype py_error = AttributeError | TypeError | ValueError | OverflowError | ValidationError

text \<open>\<^verbatim>\<open>d.get(key, default)\<close>.\<close>

definition dict_get :: "(string \<times> json) list \<Rightarrow> string \<Rightarrow> json \<Rightarrow> json" where
  "dict_get d k dflt = (case map_of d k of Some v \<Rightarrow> v | None \<Rightarrow> dflt)"

text \<open>
  \<^verbatim>\<open>float(v)\<close> for a value out of a parsed JSON document. An int is rounded to the nearest
  float, or is too large; a bool is an int; a string is parsed (\<open>float_of_str\<close>, a parameter:
  \<open>None\<close> when Python raises ValueError); None, a list and a dict are a TypeError.
\<close>

fun py_float :: "(string \<Rightarrow> pyfloat option) \<Rightarrow> json \<Rightarrow> py_error + pyfloat" where
  "py_float float_of_str (JInt n) =
     (if \<bar>fl (of_int n)\<bar> \<ge> pow2 1024 then Inl OverflowError else Inr (fl (of_int n)))"
| "py_float float_of_str (JFloat x) = Inr x"
| "py_float float_of_str (JBool b) = Inr (if b then 1 else 0)"
| "py_float float_of_str (JStr s) =
     (case float_of_str s of None \<Rightarrow> Inl ValueError | Some x \<Rightarrow> Inr x)"
| "py_float float_of_str JNull = Inl TypeError"
| "py_float float_of_str (JArr xs) = Inl TypeError"
| "py_float float_of_str (JObj d) = Inl TypeError"

subsection \<open>External classifier adapter\<close>

record scan_request =
  url :: string
  page_title :: "string option"
  page_text_snippet :: "string option"
  brand_claimed :: "string option"
  user_context :: "string option"

text \<open>The dict \<^verbatim>\<open>payload\<close> that is serialised into the user message.\<close>

record payload =
  payload_url :: string
  payload_features :: url_features
  payload_title :: "string option"
  payload_snippet :: "string option"
  payload_brand :: "string option"
  payload_context :: "string option"

text \<open>
  One call of \<^verbatim>\<open>groq_client.chat.completions.create\<close> followed by
  \<^verbatim>\<open>res.choices[0].message.content\<close>: either an exception escapes (\<open>Raised\<close>, with the
  text of \<^verbatim>\<open>str(e)\<close>) or a content string is read. A response whose content is None makes
  \<^verbatim>\<open>json.loads\<close> and then \<^verbatim>\<open>re.search\<close> raise TypeError inside the same outer
  \<^verbatim>\<open>try\<close>, so it is a \<open>Raised\<close> too.
\<close>

datatype completion = Raised string | Content string

text \<open>
  What the program takes from outside: the suffix extraction library, \<^verbatim>\<open>json.loads\<close>
  (\<open>Inl\<close> the text of the exception it raises), the parsing of a string by \<^verbatim>\<open>float\<close>, and
  the module global \<^verbatim>\<open>groq_client\<close> (\<open>None\<close> when the key or the SDK is missing).
\<close>

record env =
  tld_extract :: "string \<Rightarrow> extract_result"
  json_loads :: "string \<Rightarrow> string + json"
  float_of_str :: "string \<Rightarrow> pyfloat option"
  groq_client :: "(payload \<Rightarrow> completion) option"

text \<open>
  \<^verbatim>\<open>re.search(r"\{.*\}", content, flags=re.DOTALL)\<close>, the matched text. The leftmost match
  starts at the first opening brace; the greedy \<^verbatim>\<open>.*\<close> then runs to the last closing brace
  after it. When no closing brace follows the first opening brace, none follows a later one
  either, and there is no match.
\<close>

definition search_braces :: "string \<Rightarrow> string option" where
  "search_braces content =
     (let from_open = dropWhile (\<lambda>c. c \<noteq> CHR ''{'') content;
          block = rev (dropWhile (\<lambda>c. c \<noteq> CHR ''}'') (rev from_open))
      in if block = [] then None else Some block)"

definition fallback_unavailable :: json where
  "fallback_unavailable =
     JObj [(''genai_score'', JInt 50),
           (''verdict'', JStr ''SUSPICIOUS''),
           (''top_reasons'',
              JArr [JStr ''GenAI not configured (missing GROQ_API_KEY or Groq SDK).'']),
           (''notes'', JStr ''Fallback used (GenAI unavailable)'')]"

definition fallback_error :: "string \<Rightarrow> json" where
  "fallback_error e =
     JObj [(''genai_score'', JInt 50),
           (''verdict'', JStr ''SUSPICIOUS''),
           (''top_reasons'', JArr [JStr (''GenAI fallback: '' @ e)]),
           (''notes'', JStr ''Fallback used (GenAI error)'')]"

definition make_payload :: "scan_request \<Rightarrow> url_features \<Rightarrow> payload" where
  "make_payload req features =
     \<lparr> payload_url = url req, payload_features = features,
       payload_title = page_title req, payload_snippet = page_text_snippet req,
       payload_brand = brand_claimed req, payload_context = user_context req \<rparr>"

definition genai_analysis :: "env \<Rightarrow> scan_request \<Rightarrow> url_features \<Rightarrow> json" where
  "genai_analysis env req features =
     (case groq_client env of
        None \<Rightarrow> fallback_unavailable
      | Some client \<Rightarrow>
          (case client (make_payload req features) of
             Raised e \<Rightarrow> fallback_error e
           | Content content \<Rightarrow>
               (case json_loads env content of
                  Inr v \<Rightarrow> v
                | Inl e \<Rightarrow>
                    (case search_braces content of
                       Some block \<Rightarrow>
                         (case json_loads env block of
                            Inr v \<Rightarrow> v
                          | Inl e' \<Rightarrow> fallback_error e')
                     | None \<Rightarrow> fallback_error e))))"

subsection \<open>Fusion and the scan route\<close>

record scan_response =
  response_url :: string
  verdict :: string
  risk_score :: pyfloat
  ml_score :: int
  genai_score :: pyfloat
  reasons :: "string list"
  signals :: url_features
  genai_summary :: "(string \<times> json) list"

text \<open>\<^verbatim>\<open>final_score = 0.45 * ml_score + 0.55 * genai_score\<close>, with \<^verbatim>\<open>ml_score\<close> an int.\<close>

definition final_score :: "int \<Rightarrow> pyfloat \<Rightarrow> pyfloat" where
  "final_score ml g = fadd (fmul (fl (45 / 100)) (fl (of_int ml))) (fmul (fl (55 / 100)) g)"

definition verdict_for :: "pyfloat \<Rightarrow> string" where
  "verdict_for fs =
     (if fs \<ge> 75 then ''PHISHING'' else if fs \<ge> 45 then ''SUSPICIOUS'' else ''SAFE'')"

text \<open>
  \<^verbatim>\<open>(ml_reasons + top)[:6]\<close>: list concatenation raises TypeError unless the right operand is a list.
\<close>

definition merge_reasons :: "string list \<Rightarrow> json \<Rightarrow> py_error + json list" where
  "merge_reasons ml_reasons top_reasons =
     (case top_reasons of
        JArr xs \<Rightarrow> Inr (take 6 (map JStr ml_reasons @ xs))
      | _ \<Rightarrow> Inl TypeError)"

text \<open>
  The response model declares \<^verbatim>\<open>reasons: list[str]\<close>: constructing it checks that every
  entry is a string.
\<close>

fun str_list :: "json list \<Rightarrow> py_error + string list" where
  "str_list [] = Inr []"
| "str_list (JStr s # xs) =
     (case str_list xs of Inl e \<Rightarrow> Inl e | Inr ss \<Rightarrow> Inr (s # ss))"
| "str_list (x # xs) = Inl ValidationError"

definition scan :: "env \<Rightarrow> scan_request \<Rightarrow> py_error + scan_response" where
  "scan env req =
     (let features = get_url_features (tld_extract env) (url req);
          ml = fst (ml_score_calc features);
          ml_reasons = snd (ml_score_calc features);
          genai = genai_analysis env req features
      in case genai of
           JObj d \<Rightarrow>
             (case py_float (float_of_str env) (dict_get d ''genai_score'' (JInt 50)) of
                Inl e \<Rightarrow> Inl e
              | Inr g \<Rightarrow>
                  (let fs = final_score ml g in
                   case merge_reasons ml_reasons (dict_get d ''top_reasons'' (JArr [])) of
                     Inl e \<Rightarrow> Inl e
                   | Inr rs \<Rightarrow>
                       (case str_list rs of
                          Inl e \<Rightarrow> Inl e
                        | Inr ss \<Rightarrow>
                            Inr \<lparr> response_url = url req,
                                  verdict = verdict_for fs,
                                  risk_score = round2 fs,
                                  ml_score = ml,
                                  genai_score = g,
                                  reasons = ss,
                                  signals = features,
                                  genai_summary = d \<rparr>)))
         | _ \<Rightarrow> Inl AttributeError)"

subsection \<open>Field check and sample inputs\<close>

text \<open>A value that is a dict holding the four keys of the classifier's contract.\<close>

definition has_all_fields :: "json \<Rightarrow> bool" where
  "has_all_fields v =
     (case v of
        JObj d \<Rightarrow>
          list_all (\<lambda>k. map_of d k \<noteq> None) [''genai_score'', ''verdict'', ''top_reasons'', ''notes'']
      | _ \<Rightarrow> False)"

text \<open>
  The examples below run the pipeline on concrete inputs. They need the libraries' answers
  on those inputs only: \<open>sample_extract\<close> and \<open>sample_loads\<close> tabulate what
  \<^verbatim>\<open>tldextract.extract\<close> and \<^verbatim>\<open>json.loads\<close> return on the strings the examples use, and
  are not meant for any other string.
\<close>

definition sample_extract :: "string \<Rightarrow> extract_result" where
  "sample_extract u =
     (if u = ''https://example.com/'' \<or> u = ''http://example.com/''
      then \<lparr> fqdn = ''example.com'', suffix = ''com'' \<rparr>
      else \<lparr> fqdn = [], suffix = [] \<rparr>)"

definition sample_block :: string where
  \<open>sample_block =
     ''{"genai_score": 80, "verdict": "PHISHING", "top_reasons": ["x"], "notes": "n"}''\<close>

definition sample_response :: string where
  "sample_response = ''here's the result: '' @ sample_block @ '' thanks''"

definition reply_safe :: string where
  \<open>reply_safe =
     ''{"genai_score": 60, "verdict": "SAFE", "top_reasons": ["HTTPS not used"], "notes": "a"}''\<close>

definition reply_phishing :: string where
  \<open>reply_phishing =
     ''{"genai_score": 60, "verdict": "PHISHING", "top_reasons": ["a", "b", "c", "d", "e", "f", "g"], "notes": "b"}''\<close>

definition reply_partial :: string where
  \<open>reply_partial = ''{"genai_score": 80}''\<close>

definition reply_out_of_range :: string where
  \<open>reply_out_of_range = ''{"genai_score": 200}''\<close>

definition reply_no_score :: string where
  \<open>reply_no_score = ''{"verdict": "SAFE"}''\<close>

definition sample_loads :: "string \<Rightarrow> string + json" where
  \<open>sample_loads s =
     (if s = ''[]'' then Inr (JArr [])
      else if s = sample_block then
        Inr (JObj [(''genai_score'', JInt 80), (''verdict'', JStr ''PHISHING''),
                   (''top_reasons'', JArr [JStr ''x'']), (''notes'', JStr ''n'')])
      else if s = reply_partial then Inr (JObj [(''genai_score'', JInt 80)])
      else if s = reply_out_of_range then Inr (JObj [(''genai_score'', JInt 200)])
      else if s = reply_no_score then Inr (JObj [(''verdict'', JStr ''SAFE'')])
      else if s = reply_safe then
        Inr (JObj [(''genai_score'', JInt 60), (''verdict'', JStr ''SAFE''),
                   (''top_reasons'', JArr [JStr ''HTTPS not used'']), (''notes'', JStr ''a'')])
      else if s = reply_phishing then
        Inr (JObj [(''genai_score'', JInt 60), (''verdict'', JStr ''PHISHING''),
                   (''top_reasons'',
                      JArr [JStr ''a'', JStr ''b'', JStr ''c'', JStr ''d'', JStr ''e'', JStr ''f'',
                            JStr ''g'']),
                   (''notes'', JStr ''b'')])
      else Inl ''Expecting value: line 1 column 1 (char 0)'')\<close>

definition sample_env :: "(payload \<Rightarrow> completion) option \<Rightarrow> env" where
  "sample_env client =
     \<lparr> tld_extract = sample_extract, json_loads = sample_loads,
       float_of_str = (\<lambda>s. None), groq_client = client \<rparr>"

text \<open>A configured client whose completion is always the given text.\<close>

definition answering :: "string \<Rightarrow> (payload \<Rightarrow> completion) option" where
  "answering content = Some (\<lambda>p. Content content)"

definition sample_request :: "string \<Rightarrow> scan_request" where
  "sample_request u =
     \<lparr> url = u, page_title = None, page_text_snippet = None, brand_claimed = None,
       user_context = None \<rparr>"

section \<open>Properties\<close>

subsection \<open>Helper facts\<close>

lemma startswith_append: "startswith s p = (\<exists>rest. s = p @ rest)"
proof
  assume "startswith s p"
  then have "s = p @ drop (length p) s"
    unfolding startswith_def by (metis append_take_drop_id)
  then show "\<exists>rest. s = p @ rest" ..
next
  assume "\<exists>rest. s = p @ rest"
  then show "startswith s p"
    by (auto simp: startswith_def)
qed

lemma str_list_map: "str_list rs = Inr ss \<Longrightarrow> map JStr ss = rs"
  by (induction rs arbitrary: ss rule: str_list.induct) (auto split: sum.splits)

text \<open>What a successful scan returns, field by field.\<close>

lemma scan_InrD:
  assumes "scan env req = Inr r"
  shows "\<exists>d top.
      genai_analysis env req (get_url_features (tld_extract env) (url req)) = JObj d
    \<and> py_float (float_of_str env) (dict_get d ''genai_score'' (JInt 50)) = Inr (genai_score r)
    \<and> dict_get d ''top_reasons'' (JArr []) = JArr top
    \<and> map JStr (reasons r) =
        take 6 (map JStr (snd (ml_score_calc (get_url_features (tld_extract env) (url req)))) @ top)
    \<and> ml_score r = fst (ml_score_calc (get_url_features (tld_extract env) (url req)))
    \<and> verdict r = verdict_for (final_score (ml_score r) (genai_score r))
    \<and> risk_score r = round2 (final_score (ml_score r) (genai_score r))
    \<and> signals r = get_url_features (tld_extract env) (url req)
    \<and> response_url r = url req
    \<and> genai_summary r = d"
  using assms
  by (auto simp: scan_def Let_def merge_reasons_def split: json.splits sum.splits
      dest!: str_list_map)


lemma round_half_even_near: "\<bar>x - of_int (round_half_even x)\<bar> \<le> 1 / 2"
proof -
  have a: "of_int \<lfloor>x\<rfloor> \<le> x" and b: "x < of_int \<lfloor>x\<rfloor> + 1"
    by linarith+
  show ?thesis
    unfolding round_half_even_def Let_def
    using a b by (simp add: abs_if) linarith
qed

text \<open>
  The rounding \<open>fl\<close> is to nearest: the exponent is the binary exponent of its argument,
  and the result is a multiple of the spacing at that exponent, at most half a spacing away.
\<close>

lemma ilog2_bounds: "0 < n \<Longrightarrow> 2 ^ ilog2 n \<le> n \<and> n < 2 ^ (ilog2 n + 1)"
proof (induction n rule: ilog2.induct)
  case (1 n)
  show ?case
  proof (cases "n < 2")
    case True
    with 1(2) have "n = 1" by simp
    then show ?thesis by (simp add: ilog2.simps)
  next
    case False
    then have pos: "0 < n div 2" by simp
    from 1(1) [OF False pos] have a: "2 ^ ilog2 (n div 2) \<le> n div 2"
      and b: "n div 2 < 2 ^ (ilog2 (n div 2) + 1)" by simp_all
    from False have e: "ilog2 n = Suc (ilog2 (n div 2))"
      by (subst ilog2.simps) simp
    from a have "2 * 2 ^ ilog2 (n div 2) \<le> n" by linarith
    moreover from b have "n < 2 * 2 ^ (ilog2 (n div 2) + 1)" by linarith
    ultimately show ?thesis unfolding e by simp
  qed
qed

lemma pow2_nat: "pow2 (int k) = 2 ^ k"
  by (simp add: pow2_def)

lemma pow2_neg: "pow2 (- int k) = 1 / 2 ^ k"
  by (auto simp: pow2_def)

lemma pow2_pos: "0 < pow2 e"
  by (simp add: pow2_def)

lemma exponent_bounds:
  assumes "0 < x"
  shows "pow2 (exponent x) \<le> x \<and> x < pow2 (exponent x + 1)"
proof (cases "1 \<le> x")
  case True
  define n where "n = nat \<lfloor>x\<rfloor>"
  from True have fl1: "1 \<le> \<lfloor>x\<rfloor>" by linarith
  then have n: "0 < n" and nx: "of_nat n \<le> x" and xn: "x < of_nat n + 1"
    unfolding n_def by (simp_all, linarith+)
  from ilog2_bounds [OF n] have a: "2 ^ ilog2 n \<le> n" and b: "n < 2 ^ (ilog2 n + 1)"
    by simp_all
  from True have e: "exponent x = int (ilog2 n)"
    by (simp add: exponent_def n_def)
  have "(2::rat) ^ ilog2 n \<le> of_nat n"
    using a by (metis of_nat_le_iff of_nat_numeral of_nat_power)
  with nx have lo: "pow2 (exponent x) \<le> x"
    unfolding e pow2_nat by linarith
  from b have "n + 1 \<le> 2 ^ (ilog2 n + 1)" by simp
  then have "(of_nat (n + 1) :: rat) \<le> of_nat (2 ^ (ilog2 n + 1))"
    by (simp only: of_nat_le_iff)
  then have "(of_nat n :: rat) + 1 \<le> 2 ^ (ilog2 n + 1)"
    by simp
  with xn have "x < 2 ^ (ilog2 n + 1)" by linarith
  moreover have "exponent x + 1 = int (ilog2 n + 1)" unfolding e by simp
  ultimately have hi: "x < pow2 (exponent x + 1)"
    by (simp only: pow2_nat)
  from lo hi show ?thesis ..
next
  case False
  with assms have x1: "x < 1" by simp
  define y where "y = 1 / x"
  from assms x1 have y1: "1 < y" unfolding y_def by simp
  define n where "n = nat (\<lceil>y\<rceil> - 1)"
  from y1 have c2: "2 \<le> \<lceil>y\<rceil>" by linarith
  then have n: "0 < n" unfolding n_def by simp
  have ny: "of_nat n < y" and yn: "y \<le> of_nat n + 1"
    unfolding n_def using c2 by (simp_all, linarith+)
  from ilog2_bounds [OF n] have a: "2 ^ ilog2 n \<le> n" and b: "n < 2 ^ (ilog2 n + 1)"
    by simp_all
  from False have e: "exponent x = - int (ilog2 n + 1)"
    by (simp add: exponent_def n_def y_def)
  have "(2::rat) ^ ilog2 n \<le> of_nat n"
    using a by (metis of_nat_le_iff of_nat_numeral of_nat_power)
  with ny have ylo: "2 ^ ilog2 n < y" by linarith
  from b have "n + 1 \<le> 2 ^ (ilog2 n + 1)" by simp
  then have "(of_nat (n + 1) :: rat) \<le> of_nat (2 ^ (ilog2 n + 1))"
    by (simp only: of_nat_le_iff)
  then have "(of_nat n :: rat) + 1 \<le> 2 ^ (ilog2 n + 1)"
    by simp
  with yn have yhi: "y \<le> 2 ^ (ilog2 n + 1)" by linarith
  have x: "x = 1 / y" unfolding y_def by simp
  have ypos: "0 < y" using y1 by simp
  have "pow2 (exponent x) = 1 / 2 ^ (ilog2 n + 1)"
    unfolding e by (simp only: pow2_neg)
  moreover have "1 / 2 ^ (ilog2 n + 1) \<le> 1 / y"
    using yhi ypos by (simp add: frac_le)
  ultimately have lo: "pow2 (exponent x) \<le> x"
    unfolding x by simp
  have "exponent x + 1 = - int (ilog2 n)" unfolding e by simp
  then have "pow2 (exponent x + 1) = 1 / 2 ^ ilog2 n"
    by (simp only: pow2_neg)
  moreover have "1 / y < 1 / 2 ^ ilog2 n"
    using ylo by (simp add: frac_less2)
  ultimately have hi: "x < pow2 (exponent x + 1)"
    unfolding x by simp
  from lo hi show ?thesis ..
qed

lemma fl_nearest:
  assumes "x \<noteq> 0"
  shows "\<exists>n. fl x = of_int n * pow2 (max (exponent \<bar>x\<bar> - 52) (- 1074))
     \<and> \<bar>x - fl x\<bar> \<le> pow2 (max (exponent \<bar>x\<bar> - 52) (- 1074)) / 2"
proof -
  define u where "u = pow2 (max (exponent \<bar>x\<bar> - 52) (- 1074))"
  define n where "n = round_half_even (x / u)"
  have u: "0 < u" unfolding u_def by (rule pow2_pos)
  have f: "fl x = of_int n * u"
    using assms by (simp add: fl_def Let_def u_def n_def)
  have "\<bar>x / u - of_int n\<bar> \<le> 1 / 2"
    unfolding n_def by (rule round_half_even_near)
  then have "\<bar>x / u - of_int n\<bar> * u \<le> 1 / 2 * u"
    using u by (simp only: mult_le_cancel_right_pos)
  moreover have "\<bar>x / u - of_int n\<bar> * u = \<bar>x - of_int n * u\<bar>"
  proof -
    have "\<bar>x / u - of_int n\<bar> * u = \<bar>(x / u - of_int n) * u\<bar>"
      using u by (simp add: abs_mult)
    also have "(x / u - of_int n) * u = x - of_int n * u"
      using u by (simp add: field_simps)
    finally show ?thesis .
  qed
  ultimately have "\<bar>x - fl x\<bar> \<le> u / 2"
    unfolding f by simp
  with f show ?thesis unfolding u_def by blast
qed

text \<open>The regular expression search finds the first opening through the last closing brace.\<close>

lemma search_bracesI:
  assumes "CHR ''{'' \<notin> set pre" "CHR ''}'' \<notin> set post"
  shows "search_braces (pre @ CHR ''{'' # mid @ CHR ''}'' # post)
    = Some (CHR ''{'' # mid @ [CHR ''}''])"
proof -
  have 1: "dropWhile (\<lambda>c. c \<noteq> CHR ''{'') (pre @ CHR ''{'' # mid @ CHR ''}'' # post)
      = CHR ''{'' # mid @ CHR ''}'' # post"
    using assms(1) by (auto simp: dropWhile_append3)
  have 2: "dropWhile (\<lambda>c. c \<noteq> CHR ''}'') (rev (CHR ''{'' # mid @ CHR ''}'' # post))
      = CHR ''}'' # rev mid @ [CHR ''{'']"
    using assms(2) by (auto simp: dropWhile_append3)
  show ?thesis
    unfolding search_braces_def Let_def 1 2 by simp
qed

lemma search_bracesD:
  assumes "search_braces s = Some b"
  shows "\<exists>pre mid post. s = pre @ b @ post \<and> b = CHR ''{'' # mid @ [CHR ''}'']
     \<and> CHR ''{'' \<notin> set pre \<and> CHR ''}'' \<notin> set post"
proof -
  define pre where "pre = takeWhile (\<lambda>c. c \<noteq> CHR ''{'') s"
  define fo where "fo = dropWhile (\<lambda>c. c \<noteq> CHR ''{'') s"
  define post where "post = rev (takeWhile (\<lambda>c. c \<noteq> CHR ''}'') (rev fo))"
  define db where "db = dropWhile (\<lambda>c. c \<noteq> CHR ''}'') (rev fo)"
  have b: "b = rev db" and ne: "b \<noteq> []"
    using assms unfolding search_braces_def Let_def fo_def db_def by (auto split: if_splits)
  have s: "s = pre @ fo"
    unfolding pre_def fo_def by simp
  have "rev fo = rev post @ db"
    unfolding post_def db_def by simp
  then have "rev (rev fo) = rev (rev post @ db)"
    by simp
  then have fo: "fo = b @ post"
    unfolding b by simp
  have p1: "CHR ''{'' \<notin> set pre"
    unfolding pre_def by (auto dest: set_takeWhileD)
  have p2: "CHR ''}'' \<notin> set post"
    unfolding post_def by (auto dest: set_takeWhileD)
  from ne fo have fone: "fo \<noteq> []"
    by simp
  have "\<not> (hd fo \<noteq> CHR ''{'')"
    using fone unfolding fo_def by (rule hd_dropWhile)
  with ne fo have hb: "hd b = CHR ''{''"
    by simp
  from ne b have dbne: "db \<noteq> []"
    by simp
  have "\<not> (hd db \<noteq> CHR ''}'')"
    using dbne unfolding db_def by (rule hd_dropWhile)
  with dbne have lb: "last b = CHR ''}''"
    unfolding b by (simp add: last_rev)
  from ne hb obtain t where t: "b = CHR ''{'' # t"
    by (cases b) auto
  with lb have tne: "t \<noteq> []"
    by auto
  with t lb have lt: "last t = CHR ''}''"
    by simp
  from tne have "t = butlast t @ [last t]"
    by simp
  with lt have "t = butlast t @ [CHR ''}'']"
    by simp
  with t have "b = CHR ''{'' # butlast t @ [CHR ''}'']"
    by simp
  with s fo p1 p2 show ?thesis
    by blast
qed


lemma out_of_range_examples:
  "round2 (final_score 0 200) = 110" "verdict_for (final_score 0 200) = ''PHISHING''"
  "round2 (final_score 0 (- 50)) = - (55 / 2)" "verdict_for (final_score 0 (- 50)) = ''SAFE''"
  "py_float f (JInt 200) = Inr 200" "py_float f (JInt (- 50)) = Inr (- 50)"
  "py_float f (JInt 50) = Inr 50"
  by code_simp+


lemma fallback_fields:
  "has_all_fields fallback_unavailable" "has_all_fields (fallback_error e)"
  by (simp_all add: has_all_fields_def fallback_unavailable_def fallback_error_def)

lemma scan_reply_safe:
  "scan (sample_env (answering reply_safe)) (sample_request ''http://example.com/'') =
     Inr \<lparr> response_url = ''http://example.com/'', verdict = ''SAFE'', risk_score = 75 / 2,
           ml_score = 10, genai_score = 60,
           reasons = [''HTTPS not used'', ''HTTPS not used''],
           signals = \<lparr> host = ''example.com'', url_length = 19, num_dots = 1, num_hyphens = 0,
             has_https = False, looks_like_ip = False, suspicious_tld = False \<rparr>,
           genai_summary =
             [(''genai_score'', JInt 60), (''verdict'', JStr ''SAFE''),
              (''top_reasons'', JArr [JStr ''HTTPS not used'']), (''notes'', JStr ''a'')] \<rparr>"
  by code_simp

lemma scan_reply_phishing:
  "scan (sample_env (answering reply_phishing)) (sample_request ''http://example.com/'') =
     Inr \<lparr> response_url = ''http://example.com/'', verdict = ''SAFE'', risk_score = 75 / 2,
           ml_score = 10, genai_score = 60,
           reasons = [''HTTPS not used'', ''a'', ''b'', ''c'', ''d'', ''e''],
           signals = \<lparr> host = ''example.com'', url_length = 19, num_dots = 1, num_hyphens = 0,
             has_https = False, looks_like_ip = False, suspicious_tld = False \<rparr>,
           genai_summary =
             [(''genai_score'', JInt 60), (''verdict'', JStr ''PHISHING''),
              (''top_reasons'',
                 JArr [JStr ''a'', JStr ''b'', JStr ''c'', JStr ''d'', JStr ''e'', JStr ''f'',
                       JStr ''g'']),
              (''notes'', JStr ''b'')] \<rparr>"
  by code_simp

lemma scan_reply_out_of_range:
  "scan (sample_env (answering reply_out_of_range)) (sample_request ''https://example.com/'') =
     Inr \<lparr> response_url = ''https://example.com/'', verdict = ''PHISHING'', risk_score = 110,
           ml_score = 0, genai_score = 200, reasons = [],
           signals = \<lparr> host = ''example.com'', url_length = 20, num_dots = 1, num_hyphens = 0,
             has_https = True, looks_like_ip = False, suspicious_tld = False \<rparr>,
           genai_summary = [(''genai_score'', JInt 200)] \<rparr>"
  by code_simp

lemma scan_reply_no_score:
  "scan (sample_env (answering reply_no_score)) (sample_request ''https://example.com/'') =
     Inr \<lparr> response_url = ''https://example.com/'', verdict = ''SAFE'', risk_score = 55 / 2,
           ml_score = 0, genai_score = 50, reasons = [],
           signals = \<lparr> host = ''example.com'', url_length = 20, num_dots = 1, num_hyphens = 0,
             has_https = True, looks_like_ip = False, suspicious_tld = False \<rparr>,
           genai_summary = [(''verdict'', JStr ''SAFE'')] \<rparr>"
  by code_simp

lemma genai_reply_out_of_range:
  "genai_analysis (sample_env (answering reply_out_of_range)) (sample_request ''https://example.com/'')
     (get_url_features (tld_extract (sample_env (answering reply_out_of_range)))
        (url (sample_request ''https://example.com/''))) = JObj [(''genai_score'', JInt 200)]"
  by code_simp

lemma genai_reply_no_score:
  "genai_analysis (sample_env (answering reply_no_score)) (sample_request ''https://example.com/'')
     (get_url_features (tld_extract (sample_env (answering reply_no_score)))
        (url (sample_request ''https://example.com/''))) = JObj [(''verdict'', JStr ''SAFE'')]"
  by code_simp

lemma genai_reply_partial:
  "genai_analysis (sample_env (answering reply_partial)) (sample_request ''https://example.com/'')
     (get_url_features sample_extract ''https://example.com/'') = JObj [(''genai_score'', JInt 80)]"
  by code_simp

lemma search_sample_response: "search_braces sample_response = Some sample_block"
  by code_simp

lemma search_braces_iff:
  "(search_braces s = Some b) =
     (\<exists>pre mid post. s = pre @ b @ post \<and> b = CHR ''{'' # mid @ [CHR ''}'']
        \<and> CHR ''{'' \<notin> set pre \<and> CHR ''}'' \<notin> set post)"
proof
  assume "search_braces s = Some b"
  then show "\<exists>pre mid post. s = pre @ b @ post \<and> b = CHR ''{'' # mid @ [CHR ''}'']
        \<and> CHR ''{'' \<notin> set pre \<and> CHR ''}'' \<notin> set post"
    by (rule search_bracesD)
next
  assume "\<exists>pre mid post. s = pre @ b @ post \<and> b = CHR ''{'' # mid @ [CHR ''}'']
        \<and> CHR ''{'' \<notin> set pre \<and> CHR ''}'' \<notin> set post"
  then obtain pre mid post where s: "s = pre @ b @ post" and b: "b = CHR ''{'' # mid @ [CHR ''}'']"
    and p: "CHR ''{'' \<notin> set pre" "CHR ''}'' \<notin> set post"
    by blast
  from s b have "s = pre @ CHR ''{'' # mid @ CHR ''}'' # post"
    by simp
  with search_bracesI [OF p, of mid] b show "search_braces s = Some b"
    by simp
qed

lemma sample_loads_response:
  "sample_loads sample_response = Inl ''Expecting value: line 1 column 1 (char 0)''"
  "sample_loads sample_block =
     Inr (JObj [(''genai_score'', JInt 80), (''verdict'', JStr ''PHISHING''),
                (''top_reasons'', JArr [JStr ''x'']), (''notes'', JStr ''n'')])"
  by code_simp+

subsection \<open>Heuristic scorer\<close>

text \<open>
  C3. The heuristic scorer evaluates the five rules in the fixed order (looks\_like\_ip +20,
  suspicious\_tld +15, url\_length > 70 +10, num\_hyphens >= 3 +10, not has\_https +10),
  appends one fixed reason per triggered rule in that order, and returns the minimum of the
  sum of the triggered deltas and 100. The raw sum is at most 65, so the score lies in
  [0, 100] (and the clamp never bites); when no rule triggers the result is score 0 with an
  empty reason list.
\<close>

theorem ml_score_calc_rules:
  "ml_score_calc f =
     (min ((if looks_like_ip f then 20 else 0) + (if suspicious_tld f then 15 else 0)
           + (if url_length f > 70 then 10 else 0) + (if num_hyphens f \<ge> 3 then 10 else 0)
           + (if has_https f then 0 else 10)) 100,
      (if looks_like_ip f then [''IP address used instead of domain''] else [])
      @ (if suspicious_tld f then [''Suspicious TLD detected''] else [])
      @ (if url_length f > 70 then [''Unusually long URL''] else [])
      @ (if num_hyphens f \<ge> 3 then [''Too many hyphens in domain''] else [])
      @ (if has_https f then [] else [''HTTPS not used'']))
   \<and> 0 \<le> fst (ml_score_calc f) \<and> fst (ml_score_calc f) \<le> 65
   \<and> fst (ml_score_calc f) \<le> 100
   \<and> (\<not> looks_like_ip f \<and> \<not> suspicious_tld f \<and> \<not> url_length f > 70
        \<and> \<not> num_hyphens f \<ge> 3 \<and> has_https f
       \<longrightarrow> ml_score_calc f = (0, []))"
  by (simp add: ml_score_calc_def rule_step_def Let_def)

theorem ml_score_calc_rules_witness:
  "ml_score_calc \<lparr> host = ''a-b-c-d.xyz'', url_length = 18, num_dots = 1, num_hyphens = 3,
       has_https = False, looks_like_ip = False, suspicious_tld = True \<rparr>
     = (35, [''Suspicious TLD detected'', ''Too many hyphens in domain'', ''HTTPS not used''])
   \<and> ml_score_calc \<lparr> host = ''example.com'', url_length = 19, num_dots = 1, num_hyphens = 0,
       has_https = True, looks_like_ip = False, suspicious_tld = False \<rparr> = (0, [])"
  using ml_score_calc_rules [of "\<lparr> host = ''a-b-c-d.xyz'', url_length = 18, num_dots = 1,
       num_hyphens = 3, has_https = False, looks_like_ip = False, suspicious_tld = True \<rparr>"]
    ml_score_calc_rules [of "\<lparr> host = ''example.com'', url_length = 19, num_dots = 1,
       num_hyphens = 0, has_https = True, looks_like_ip = False, suspicious_tld = False \<rparr>"]
  by simp

subsection \<open>Feature extraction\<close>

text \<open>
  C9. For every URL string, has\_https is true exactly when the string begins with the five
  characters "https": a prefix test on the string, not scheme parsing. The URL
  "httpsx://example.com" has has\_https true.
\<close>

theorem has_https_prefix:
  "has_https (get_url_features extract u) = (\<exists>rest. u = ''https'' @ rest)
   \<and> has_https (get_url_features extract ''httpsx://example.com'') = True"
  by (simp add: get_url_features_def startswith_append Let_def)

text \<open>
  C10 (amended). For every URL whose host resolution yields an empty string, the features
  have an empty host, num\_dots and num\_hyphens equal to zero and looks\_like\_ip false.
  has\_https does not depend on the host: it is still the prefix test on the URL; and
  suspicious\_tld is still the membership of the extracted suffix in the deny-set.
\<close>

theorem empty_host_features:
  "fqdn (extract u) = [] \<Longrightarrow>
     host (get_url_features extract u) = []
   \<and> num_dots (get_url_features extract u) = 0
   \<and> num_hyphens (get_url_features extract u) = 0
   \<and> looks_like_ip (get_url_features extract u) = False
   \<and> has_https (get_url_features extract u) = startswith u ''https''
   \<and> suspicious_tld (get_url_features extract u) = (suffix (extract u) \<in> SUSPICIOUS_TLDS)"
  by (simp add: get_url_features_def Let_def count_char_def is_ip_def)

theorem empty_host_features_witness:
  "fqdn (extract_no_suffix ''https://127.0.0.1/'') = []
   \<and> num_dots (get_url_features extract_no_suffix ''https://127.0.0.1/'') = 0
   \<and> num_hyphens (get_url_features extract_no_suffix ''https://127.0.0.1/'') = 0
   \<and> looks_like_ip (get_url_features extract_no_suffix ''https://127.0.0.1/'') = False
   \<and> has_https (get_url_features extract_no_suffix ''https://127.0.0.1/'') = True"
proof -
  have h: "fqdn (extract_no_suffix ''https://127.0.0.1/'') = []"
    by (simp add: extract_no_suffix_def)
  show ?thesis
    using h empty_host_features [of extract_no_suffix "''https://127.0.0.1/''", OF h] by (simp add: startswith_def)
qed

text \<open>
  The claim as first stated, that has\_https is false too, fails for "https://127.0.0.1/",
  whose host resolution is empty.
\<close>

theorem empty_host_features_counterexample:
  "\<not> (host (get_url_features extract_no_suffix ''https://127.0.0.1/'') = [] \<longrightarrow>
        num_dots (get_url_features extract_no_suffix ''https://127.0.0.1/'') = 0
      \<and> num_hyphens (get_url_features extract_no_suffix ''https://127.0.0.1/'') = 0
      \<and> has_https (get_url_features extract_no_suffix ''https://127.0.0.1/'') = False
      \<and> looks_like_ip (get_url_features extract_no_suffix ''https://127.0.0.1/'') = False
      \<and> suspicious_tld (get_url_features extract_no_suffix ''https://127.0.0.1/'') = False)"
  by (simp add: get_url_features_def Let_def extract_no_suffix_def startswith_def)

subsection \<open>Reasons of a scan\<close>

text \<open>
  C6. For every scan that returns a result, the result's reasons are the heuristic reasons
  (in rule order) followed by the classifier's top\_reasons (in the classifier's order), cut
  to the first 6 entries, with no deduplication: the list never has more than 6 entries, and
  a reason present in both lists appears twice.
\<close>

theorem scan_reasons:
  assumes "scan env req = Inr r"
  shows "\<exists>d top.
      genai_analysis env req (get_url_features (tld_extract env) (url req)) = JObj d
    \<and> dict_get d ''top_reasons'' (JArr []) = JArr top
    \<and> map JStr (reasons r) =
        take 6 (map JStr (snd (ml_score_calc (get_url_features (tld_extract env) (url req)))) @ top)
    \<and> length (reasons r) \<le> 6"
proof -
  from scan_InrD [OF assms] obtain d top where
    g: "genai_analysis env req (get_url_features (tld_extract env) (url req)) = JObj d"
    and t: "dict_get d ''top_reasons'' (JArr []) = JArr top"
    and m: "map JStr (reasons r) =
        take 6 (map JStr (snd (ml_score_calc (get_url_features (tld_extract env) (url req)))) @ top)"
    by blast
  have "length (map JStr (reasons r)) \<le> 6"
    unfolding m by simp
  then have "length (reasons r) \<le> 6"
    by simp
  with g t m show ?thesis
    by blast
qed

theorem scan_reasons_witness:
  "(\<exists>r. scan (sample_env (answering reply_safe)) (sample_request ''http://example.com/'') = Inr r
      \<and> reasons r = [''HTTPS not used'', ''HTTPS not used''])
   \<and> (\<exists>r. scan (sample_env (answering reply_phishing)) (sample_request ''http://example.com/'') = Inr r
      \<and> reasons r = [''HTTPS not used'', ''a'', ''b'', ''c'', ''d'', ''e''] \<and> length (reasons r) \<le> 6)"
  using scan_reasons [OF scan_reply_safe] scan_reasons [OF scan_reply_phishing]
  by (simp add: scan_reply_safe scan_reply_phishing)

subsection \<open>Fusion\<close>



text \<open>
  C7. Fusion does not clamp the classifier's score. When a scan returns, its genai\_score is
  float() of the parsed output's genai\_score entry, whatever its range, and risk\_score and
  verdict are computed from it as they are from any other score; when the parsed output has
  no genai\_score key the score is the default 50. So a classifier score of 200 with
  ml\_score 0 gives risk\_score 110.0 and verdict PHISHING, and a score of -50 gives a
  negative risk\_score.
\<close>

theorem scan_no_clamp:
  assumes "scan env req = Inr r"
    and "genai_analysis env req (get_url_features (tld_extract env) (url req)) = JObj d"
  shows "py_float (float_of_str env) (dict_get d ''genai_score'' (JInt 50)) = Inr (genai_score r)
    \<and> risk_score r = round2 (final_score (ml_score r) (genai_score r))
    \<and> verdict r = verdict_for (final_score (ml_score r) (genai_score r))
    \<and> (map_of d ''genai_score'' = None \<longrightarrow> genai_score r = 50)
    \<and> py_float (float_of_str env) (JInt 200) = Inr 200
    \<and> py_float (float_of_str env) (JInt (- 50)) = Inr (- 50)
    \<and> round2 (final_score 0 200) = 110 \<and> verdict_for (final_score 0 200) = ''PHISHING''
    \<and> round2 (final_score 0 (- 50)) = - (55 / 2)"
proof -
  from scan_InrD [OF assms(1)] assms(2) have
    a: "py_float (float_of_str env) (dict_get d ''genai_score'' (JInt 50)) = Inr (genai_score r)"
    and b: "risk_score r = round2 (final_score (ml_score r) (genai_score r))"
    and c: "verdict r = verdict_for (final_score (ml_score r) (genai_score r))"
    by auto
  have d: "map_of d ''genai_score'' = None \<longrightarrow> genai_score r = 50"
  proof
    assume "map_of d ''genai_score'' = None"
    then have "dict_get d ''genai_score'' (JInt 50) = JInt 50"
      by (simp add: dict_get_def)
    with a have "py_float (float_of_str env) (JInt 50) = Inr (genai_score r)"
      by simp
    then show "genai_score r = 50"
      unfolding out_of_range_examples by simp
  qed
  show ?thesis
    using a b c d out_of_range_examples(1,2,3,5,6) by (intro conjI) assumption+
qed

theorem scan_no_clamp_witness:
  "(\<exists>r. scan (sample_env (answering reply_out_of_range)) (sample_request ''https://example.com/'')
        = Inr r
      \<and> ml_score r = 0 \<and> genai_score r = 200 \<and> risk_score r = 110 \<and> verdict r = ''PHISHING'')
   \<and> (\<exists>r. scan (sample_env (answering reply_no_score)) (sample_request ''https://example.com/'')
        = Inr r
      \<and> map_of (genai_summary r) ''genai_score'' = None \<and> genai_score r = 50)"
  using scan_no_clamp [OF scan_reply_out_of_range genai_reply_out_of_range]
    scan_no_clamp [OF scan_reply_no_score genai_reply_no_score]
  by (simp add: scan_reply_out_of_range scan_reply_no_score)



subsection \<open>External classifier adapter\<close>

text \<open>
  C4 (amended). The adapter returns the fixed unavailable-fallback when no client is
  configured, an error-fallback when the call raises or neither parse attempt succeeds, and
  otherwise the JSON object json.loads parsed from the classifier's text (the whole text, or
  the brace-delimited block when the whole text does not parse). Both fallbacks contain
  the four fields genai\_score, verdict, top\_reasons and notes; a parsed value is returned
  unchanged, with whatever fields the classifier sent: when that value is an object, the
  result contains all four fields exactly when the object has all four keys.
\<close>

theorem genai_analysis_fields:
  "(groq_client env = None \<longrightarrow> genai_analysis env req f = fallback_unavailable)
   \<and> (\<forall>c e. groq_client env = Some c \<and> c (make_payload req f) = Raised e
         \<longrightarrow> genai_analysis env req f = fallback_error e)
   \<and> (\<forall>c s e. groq_client env = Some c \<and> c (make_payload req f) = Content s
           \<and> json_loads env s = Inl e \<and> search_braces s = None
         \<longrightarrow> genai_analysis env req f = fallback_error e)
   \<and> (\<forall>c s e b e'. groq_client env = Some c \<and> c (make_payload req f) = Content s
           \<and> json_loads env s = Inl e \<and> search_braces s = Some b \<and> json_loads env b = Inl e'
         \<longrightarrow> genai_analysis env req f = fallback_error e')
   \<and> (\<forall>c s d. groq_client env = Some c \<and> c (make_payload req f) = Content s
           \<and> json_loads env s = Inr (JObj d)
         \<longrightarrow> genai_analysis env req f = JObj d)
   \<and> (\<forall>c s e b d. groq_client env = Some c \<and> c (make_payload req f) = Content s
           \<and> json_loads env s = Inl e \<and> search_braces s = Some b
           \<and> json_loads env b = Inr (JObj d)
         \<longrightarrow> genai_analysis env req f = JObj d)
   \<and> has_all_fields fallback_unavailable
   \<and> (\<forall>e. has_all_fields (fallback_error e))
   \<and> (\<forall>d. has_all_fields (JObj d)
          = ({''genai_score'', ''verdict'', ''top_reasons'', ''notes''} \<subseteq> dom (map_of d)))"
proof -
  have keys: "\<forall>d. has_all_fields (JObj d)
          = ({''genai_score'', ''verdict'', ''top_reasons'', ''notes''} \<subseteq> dom (map_of d))"
    by (auto simp: has_all_fields_def)
  show ?thesis
    using keys by (simp add: genai_analysis_def fallback_fields)
qed

theorem genai_analysis_fields_witness:
  "genai_analysis (sample_env None) (sample_request ''https://example.com/'')
      (get_url_features sample_extract ''https://example.com/'') = fallback_unavailable
   \<and> has_all_fields (genai_analysis (sample_env None) (sample_request ''https://example.com/'')
      (get_url_features sample_extract ''https://example.com/''))
   \<and> genai_analysis (sample_env (Some (\<lambda>p. Raised ''Connection error.'')))
        (sample_request ''https://example.com/'')
        (get_url_features sample_extract ''https://example.com/'')
      = fallback_error ''Connection error.''
   \<and> genai_analysis (sample_env (answering ''not json''))
        (sample_request ''https://example.com/'')
        (get_url_features sample_extract ''https://example.com/'')
      = fallback_error ''Expecting value: line 1 column 1 (char 0)''"
  using genai_analysis_fields [of "sample_env None" "sample_request ''https://example.com/''"
      "get_url_features sample_extract ''https://example.com/''"]
    genai_analysis_fields [of "sample_env (Some (\<lambda>p. Raised ''Connection error.''))"
      "sample_request ''https://example.com/''"
      "get_url_features sample_extract ''https://example.com/''"]
    genai_analysis_fields [of "sample_env (answering ''not json'')"
      "sample_request ''https://example.com/''"
      "get_url_features sample_extract ''https://example.com/''"]
  by (simp add: sample_env_def answering_def sample_loads_def search_braces_def
      sample_block_def reply_partial_def reply_out_of_range_def reply_no_score_def
      reply_safe_def reply_phishing_def fallback_fields)

text \<open>
  The claim as first stated, that all four fields are present for any classifier output,
  fails for a classifier that answers a JSON object with the score only.
\<close>

theorem genai_analysis_fields_counterexample:
  "\<not> has_all_fields
       (genai_analysis (sample_env (answering reply_partial))
          (sample_request ''https://example.com/'')
          (get_url_features sample_extract ''https://example.com/''))"
  unfolding genai_reply_partial by (simp add: has_all_fields_def)

text \<open>
  C5. When direct parsing of the classifier's response fails, the adapter takes the text from
  the first opening brace through the last closing brace (one greedy match, blind to
  nesting) and returns what json.loads parses from it, or the error-fallback when there is
  no such text or it does not parse. For the response "here's the result: \{...\} thanks" of
  the specification the extracted text is the JSON object alone, and the adapter returns
  the object json.loads parses from it, with genai\_score 80.
\<close>

theorem brace_recovery:
  assumes "groq_client env = Some c" and "c (make_payload req f) = Content s"
    and "json_loads env s = Inl e"
  shows "genai_analysis env req f =
      (case search_braces s of
         None \<Rightarrow> fallback_error e
       | Some b \<Rightarrow> (case json_loads env b of Inr v \<Rightarrow> v | Inl e' \<Rightarrow> fallback_error e'))
    \<and> (\<forall>b. (search_braces s = Some b) =
          (\<exists>pre mid post. s = pre @ b @ post \<and> b = CHR ''{'' # mid @ [CHR ''}'']
             \<and> CHR ''{'' \<notin> set pre \<and> CHR ''}'' \<notin> set post))
    \<and> search_braces sample_response = Some sample_block
    \<and> (s = sample_response \<and> json_loads env sample_block = Inr (JObj d)
         \<and> map_of d ''genai_score'' = Some (JInt 80)
       \<longrightarrow> genai_analysis env req f = JObj d \<and> dict_get d ''genai_score'' (JInt 50) = JInt 80)"
proof -
  have 1: "genai_analysis env req f =
      (case search_braces s of
         None \<Rightarrow> fallback_error e
       | Some b \<Rightarrow> (case json_loads env b of Inr v \<Rightarrow> v | Inl e' \<Rightarrow> fallback_error e'))"
    using assms by (simp add: genai_analysis_def)
  have 2: "\<forall>b. (search_braces s = Some b) =
          (\<exists>pre mid post. s = pre @ b @ post \<and> b = CHR ''{'' # mid @ [CHR ''}'']
             \<and> CHR ''{'' \<notin> set pre \<and> CHR ''}'' \<notin> set post)"
    using search_braces_iff by blast
  have 3: "s = sample_response \<and> json_loads env sample_block = Inr (JObj d)
         \<and> map_of d ''genai_score'' = Some (JInt 80)
       \<longrightarrow> genai_analysis env req f = JObj d \<and> dict_get d ''genai_score'' (JInt 50) = JInt 80"
    unfolding 1 by (simp add: search_sample_response dict_get_def)
  from 1 2 search_sample_response 3 show ?thesis
    by (intro conjI) assumption+
qed

theorem brace_recovery_witness:
  "json_loads (sample_env (answering sample_response)) sample_response
     = Inl ''Expecting value: line 1 column 1 (char 0)''
   \<and> genai_analysis (sample_env (answering sample_response))
        (sample_request ''https://example.com/'')
        (get_url_features sample_extract ''https://example.com/'')
     = JObj [(''genai_score'', JInt 80), (''verdict'', JStr ''PHISHING''),
             (''top_reasons'', JArr [JStr ''x'']), (''notes'', JStr ''n'')]"
proof -
  have a: "groq_client (sample_env (answering sample_response))
      = Some (\<lambda>p. Content sample_response)"
    by (simp add: sample_env_def answering_def)
  have b: "(\<lambda>p. Content sample_response)
      (make_payload (sample_request ''https://example.com/'')
         (get_url_features sample_extract ''https://example.com/'')) = Content sample_response"
    by simp
  have c: "json_loads (sample_env (answering sample_response)) sample_response
      = Inl ''Expecting value: line 1 column 1 (char 0)''"
    by (simp add: sample_env_def sample_loads_response)
  have d: "json_loads (sample_env (answering sample_response)) sample_block
      = Inr (JObj [(''genai_score'', JInt 80), (''verdict'', JStr ''PHISHING''),
                (''top_reasons'', JArr [JStr ''x'']), (''notes'', JStr ''n'')])"
    by (simp add: sample_env_def sample_loads_response)
  show ?thesis
    using brace_recovery [OF a b c,
        where d = "[(''genai_score'', JInt 80), (''verdict'', JStr ''PHISHING''),
             (''top_reasons'', JArr [JStr ''x'']), (''notes'', JStr ''n'')]"] c d
    by simp
qed

text \<open>
  C1. The adapter is documented as always returning a dict, so that the scan always returns
  a result. A classifier that answers valid JSON that is not an object breaks this: the
  adapter returns the parsed list, and the scan's \<^verbatim>\<open>genai.get\<close> raises AttributeError.
\<close>

theorem scan_raises_on_non_dict:
  "genai_analysis (sample_env (answering ''[]'')) (sample_request ''https://example.com/'')
      (get_url_features sample_extract ''https://example.com/'') = JArr []
   \<and> scan (sample_env (answering ''[]'')) (sample_request ''https://example.com/'')
      = Inl AttributeError"
  by code_simp

end
